theory Spec2Isabelle
  imports Main
begin

section \<open>Python values as they come out of \<open>json.load\<close>\<close>

text \<open>
  \<open>gameresult_to_csv.py\<close> reads a JSON document, turns every record of its
  \<open>results\<close> array into a flat row and writes the rows as CSV. The values it
  handles are the ones \<open>json.load\<close> builds: \<open>None\<close>, \<open>bool\<close>, \<open>int\<close>,
  \<open>float\<close>, \<open>str\<close>, \<open>list\<close> and \<open>dict\<close>.

  \<^item> An \<open>int\<close> is unbounded, as in Python.
  \<^item> A \<open>float\<close> is carried as the text \<open>repr\<close> gives for it (\<open>3.5\<close>, \<open>1e+16\<close>,
    \<open>nan\<close>); the program never computes with a float, it only passes it on or prints it.
  \<^item> A \<open>str\<close> is the list of the bytes of its UTF-8 encoding, one to four 8-bit
    characters for a code point. \<open>json.load\<close> also builds strs that hold a lone
    surrogate (the document writes it \<open>\ud800\<close>), which UTF-8 refuses to encode; such
    a code point is carried in the three bytes that the error handler \<open>surrogatepass\<close>
    writes for it: \<open>0xED\<close>, a byte from \<open>0xA0\<close> to \<open>0xBF\<close>, and one more. Two strs
    are equal when their bytes are, the bytes of a concatenation are the concatenation
    of the bytes, and one str occurs in another when its bytes do. The length of a str
    and the loop over it count code points, not bytes. \<open>repr\<close> needs to know which
    code points are printable: the strs of the model are those in which every code
    point above \<open>U+00FF\<close> is a printable one or a lone surrogate.
  \<^item> A \<open>dict\<close> is the list of its items in insertion order (the order \<open>items()\<close>
    and \<open>keys()\<close> iterate in); the keys of a dict are distinct, and lookups take the
    first item with the key.
  \<^item> \<open>JOther\<close> is a value of any other type, one that \<open>json.load\<close> never builds
    (a \<open>datetime\<close>, say), as far as the script can see it: the name of its type, the
    texts that \<open>str\<close> and \<open>repr\<close> give for it, and its truth value. It is no
    \<open>bool\<close>, number, \<open>str\<close>, \<open>list\<close> or \<open>dict\<close>, and it has none of \<open>get\<close>,
    \<open>items\<close>, \<open>in\<close>, subscripts, \<open>len\<close> and iteration.
\<close>

datatype json =
    JNull
  | JBool bool
  | JInt int
  | JFloat string
  | JStr string
  | JArr "json list"
  | JObj "(string \<times> json) list"
  | JOther string string string bool

type_synonym pydict = "(string \<times> json) list"

text \<open>The exceptions that the operations used by the script can raise.\<close>

datatype py_error =
    AttributeError string string  \<comment> \<open>type name, attribute\<close>
  | KeyError string
  | TypeError string
  | ValueError string
  | IndexError
  | UnicodeDecodeError
  | UnicodeEncodeError
  | RecursionError
  | OSError string

fun type_name :: "json \<Rightarrow> string" where
  "type_name JNull = ''NoneType''"
| "type_name (JBool b) = ''bool''"
| "type_name (JInt i) = ''int''"
| "type_name (JFloat r) = ''float''"
| "type_name (JStr s) = ''str''"
| "type_name (JArr xs) = ''list''"
| "type_name (JObj d) = ''dict''"
| "type_name (JOther t s r b) = t"

subsection \<open>\<open>sep.join(parts)\<close>\<close>

fun join :: "string \<Rightarrow> string list \<Rightarrow> string" where
  "join sep [] = []"
| "join sep [x] = x"
| "join sep (x # y # ys) = x @ sep @ join sep (y # ys)"

subsection \<open>\<open>str\<close> and \<open>repr\<close>\<close>

definition digit_char :: "nat \<Rightarrow> char" where
  "digit_char d = ''0123456789abcdef'' ! d"

fun str_nat :: "nat \<Rightarrow> string" where
  "str_nat n =
     (if n < 10 then [digit_char n] else str_nat (n div 10) @ [digit_char (n mod 10)])"

declare str_nat.simps [simp del]

definition str_int :: "int \<Rightarrow> string" where
  "str_int i = (if i < 0 then CHR ''-'' # str_nat (nat (- i)) else str_nat (nat i))"

text \<open>
  \<open>repr\<close> of a string: delimited by single quotes, or by double quotes when the string
  has a single quote and no double quote. Of the ASCII characters, the delimiter and
  the backslash are escaped, tab, newline and carriage return are written \<open>\t\<close>,
  \<open>\n\<close>, \<open>\r\<close>, and the other control characters (below 32, and 127) are written
  \<open>\xhh\<close>.
\<close>

definition hex2 :: "nat \<Rightarrow> string" where
  "hex2 n = [digit_char (n div 16), digit_char (n mod 16)]"

definition escape_char :: "char \<Rightarrow> char \<Rightarrow> string" where
  "escape_char quote c =
     (let n = (of_char c :: nat) in
      if c = quote \<or> c = CHR 0x5C then [CHR 0x5C, c]
      else if c = CHR 0x09 then [CHR 0x5C, CHR ''t'']
      else if c = CHR 0x0A then [CHR 0x5C, CHR ''n'']
      else if c = CHR 0x0D then [CHR 0x5C, CHR ''r'']
      else if n < 32 \<or> n = 127 then [CHR 0x5C, CHR ''x''] @ hex2 n
      else [c])"

text \<open>
  Beyond ASCII, \<open>repr\<close> escapes the code points that are not printable. From
  \<open>U+0080\<close> to \<open>U+00FF\<close> these are \<open>U+0080\<close> to \<open>U+00A0\<close> and \<open>U+00AD\<close>, with the
  bytes \<open>0xC2\<close> and the code point itself, written \<open>\xhh\<close>. A lone surrogate, three
  bytes from \<open>0xED\<close> and a byte of \<open>0xA0\<close> or more, is written \<open>\uhhhh\<close>. The bytes of
  every other code point are kept.
\<close>

fun escape_str :: "char \<Rightarrow> string \<Rightarrow> string" where
  "escape_str quote [] = []"
| "escape_str quote [c] = (if (of_char c :: nat) < 128 then escape_char quote c else [c])"
| "escape_str quote (c # c2 # cs) =
     (if (of_char c :: nat) < 128 then escape_char quote c @ escape_str quote (c2 # cs)
      else if c = CHR 0xC2 \<and> ((of_char c2 :: nat) \<le> 160 \<or> c2 = CHR 0xAD)
        then [CHR 0x5C, CHR ''x''] @ hex2 (of_char c2) @ escape_str quote cs
      else if c = CHR 0xED \<and> 160 \<le> (of_char c2 :: nat)
        then (case cs of
                [] \<Rightarrow> [c, c2]
              | c3 # rest \<Rightarrow>
                  (let n = 55296 + (of_char c2 - 160) * 64 + (of_char c3 - 128)
                   in [CHR 0x5C, CHR ''u''] @ hex2 (n div 256) @ hex2 (n mod 256)
                      @ escape_str quote rest))
      else c # escape_str quote (c2 # cs))"

definition repr_str :: "string \<Rightarrow> string" where
  "repr_str s =
     (let quote = (if CHR 0x27 \<in> set s \<and> CHR 0x22 \<notin> set s then CHR 0x22 else CHR 0x27)
      in [quote] @ escape_str quote s @ [quote])"

fun py_repr :: "json \<Rightarrow> string"
  and repr_elems :: "json list \<Rightarrow> string list"
  and repr_items :: "pydict \<Rightarrow> string list" where
  "py_repr JNull = ''None''"
| "py_repr (JBool b) = (if b then ''True'' else ''False'')"
| "py_repr (JInt i) = str_int i"
| "py_repr (JFloat r) = r"
| "py_repr (JStr s) = repr_str s"
| "py_repr (JArr xs) = ''['' @ join '', '' (repr_elems xs) @ '']''"
| "py_repr (JObj d) = ''{'' @ join '', '' (repr_items d) @ ''}''"
| "py_repr (JOther t s r b) = r"
| "repr_elems [] = []"
| "repr_elems (x # xs) = py_repr x # repr_elems xs"
| "repr_items [] = []"
| "repr_items ((k, v) # d) = (repr_str k @ '': '' @ py_repr v) # repr_items d"

text \<open>
  \<open>str(v)\<close>, which is also what an f-string field \<open>{v}\<close> formats to: the string
  itself for a \<open>str\<close>, \<open>repr(v)\<close> for every other value that \<open>json.load\<close> builds.
\<close>

definition py_str :: "json \<Rightarrow> string" where
  "py_str v = (case v of JStr s \<Rightarrow> s | JOther t s r b \<Rightarrow> s | _ \<Rightarrow> py_repr v)"

subsection \<open>Operations on dicts and truth values\<close>

definition dict_contains :: "pydict \<Rightarrow> string \<Rightarrow> bool" where
  \<comment> \<open>\<open>k in d\<close>\<close>
  "dict_contains d k = (map_of d k \<noteq> None)"

definition dict_getitem :: "pydict \<Rightarrow> string \<Rightarrow> py_error + json" where
  \<comment> \<open>\<open>d[k]\<close>\<close>
  "dict_getitem d k = (case map_of d k of None \<Rightarrow> Inl (KeyError k) | Some v \<Rightarrow> Inr v)"

definition dict_get :: "pydict \<Rightarrow> string \<Rightarrow> json \<Rightarrow> json" where
  \<comment> \<open>\<open>d.get(k, default)\<close>\<close>
  "dict_get d k dflt = (case map_of d k of None \<Rightarrow> dflt | Some v \<Rightarrow> v)"

fun dict_setitem :: "pydict \<Rightarrow> string \<Rightarrow> json \<Rightarrow> pydict" where
  \<comment> \<open>\<open>d[k] = v\<close>: a new key goes to the end, a known key keeps its place\<close>
  "dict_setitem [] k v = [(k, v)]"
| "dict_setitem ((k', v') # d) k v =
     (if k' = k then (k, v) # d else (k', v') # dict_setitem d k v)"

fun truthy :: "json \<Rightarrow> bool" where
  "truthy JNull = False"
| "truthy (JBool b) = b"
| "truthy (JInt i) = (i \<noteq> 0)"
| "truthy (JFloat r) = (r \<noteq> ''0.0'' \<and> r \<noteq> ''-0.0'')"
| "truthy (JStr s) = (s \<noteq> [])"
| "truthy (JArr xs) = (xs \<noteq> [])"
| "truthy (JObj d) = (d \<noteq> [])"
| "truthy (JOther t s r b) = b"

fun is_list_or_dict :: "json \<Rightarrow> bool" where
  \<comment> \<open>\<open>isinstance(v, (list, dict))\<close>\<close>
  "is_list_or_dict (JArr xs) = True"
| "is_list_or_dict (JObj d) = True"
| "is_list_or_dict v = False"

section \<open>\<open>flatten_value\<close>\<close>

text \<open>
  The branches follow the \<open>if\<close>/\<open>elif\<close> chain of the source. A \<open>bool\<close> is tested
  before the numbers, as in the source, where \<open>True\<close> is also an \<open>int\<close>. The last
  branch of the source (\<open>str(value)\<close> for any other type) is the one for \<open>JOther\<close>; a
  value of \<open>json.load\<close> never reaches it. The subscript \<open>value['__type']\<close> can raise \<open>KeyError\<close>; the
  \<open>and\<close> before it evaluates it only when the key is there. The loop over
  \<open>value.items()\<close> is \<open>flatten_items\<close>, with the list \<open>items\<close> as accumulator.
\<close>

fun flatten_value :: "json \<Rightarrow> py_error + json"
  and flatten_items :: "pydict \<Rightarrow> string list \<Rightarrow> py_error + string list" where
  "flatten_value JNull = Inr (JStr '''')"
| "flatten_value (JBool b) = Inr (JStr (py_str (JBool b)))"
| "flatten_value (JInt i) = Inr (JInt i)"
| "flatten_value (JFloat r) = Inr (JFloat r)"
| "flatten_value (JStr s) = Inr (JStr s)"
| "flatten_value (JArr xs) = Inr (JStr (join '', '' (map py_str xs)))"
| "flatten_value (JObj d) =
     (case (if dict_contains d ''__type''
            then (case dict_getitem d ''__type'' of
                    Inl e \<Rightarrow> Inl e
                  | Inr t \<Rightarrow> Inr (t = JStr ''Date''))
            else Inr False) of
        Inl e \<Rightarrow> Inl e
      | Inr True \<Rightarrow> Inr (dict_get d ''iso'' (JStr ''''))
      | Inr False \<Rightarrow>
          if length d = 0 then Inr (JStr '''')
          else (case flatten_items d [] of
                  Inl e \<Rightarrow> Inl e
                | Inr items \<Rightarrow> Inr (JStr (join ''; '' items))))"
| "flatten_value (JOther t s r b) = Inr (JStr (py_str (JOther t s r b)))"
| "flatten_items [] items = Inr items"
| "flatten_items ((k, v) # rest) items =
     (if is_list_or_dict v
      then (case flatten_value v of
              Inl e \<Rightarrow> Inl e
            | Inr v_str \<Rightarrow> flatten_items rest (items @ [k @ '': '' @ py_str v_str]))
      else flatten_items rest (items @ [k @ '': '' @ py_str v]))"

text \<open>What the rules of the flattener say, for the statements below.\<close>

definition is_date_wrapper :: "pydict \<Rightarrow> bool" where
  "is_date_wrapper d = (map_of d ''__type'' = Some (JStr ''Date''))"

definition flattened :: "json \<Rightarrow> json" where
  \<comment> \<open>the value \<open>flatten_value\<close> returns\<close>
  "flattened v = projr (flatten_value v)"

fun pair_text :: "string \<times> json \<Rightarrow> string" where
  "pair_text (k, v) =
     k @ '': '' @ (if is_list_or_dict v then py_str (flattened v) else py_str v)"

fun is_str :: "json \<Rightarrow> bool" where
  "is_str (JStr s) = True"
| "is_str v = False"

section \<open>\<open>extract_fields\<close>\<close>

text \<open>
  An exception raised inside a function ends it: \<open>bind_result m f\<close> runs \<open>f\<close> on the value
  of \<open>m\<close>, and is the error of \<open>m\<close> when \<open>m\<close> raised.
\<close>

definition bind_result :: "py_error + 'a \<Rightarrow> ('a \<Rightarrow> py_error + 'b) \<Rightarrow> py_error + 'b" where
  "bind_result m f = (case m of Inl e \<Rightarrow> Inl e | Inr x \<Rightarrow> f x)"

text \<open>
  The loop over \<open>power_cards_owned.items()\<close>, with the list \<open>cards_strs\<close> as
  accumulator.
\<close>

fun cards_loop :: "pydict \<Rightarrow> string list \<Rightarrow> string list" where
  "cards_loop [] cards_strs = cards_strs"
| "cards_loop ((spirit, cards) # rest) cards_strs =
     (let cards_list = (case cards of
                          JArr cs \<Rightarrow> join '', '' (map py_str cs)
                        | _ \<Rightarrow> py_str cards)
      in cards_loop rest (cards_strs @ [spirit @ '': '' @ cards_list]))"

text \<open>
  The row is built by the assignments \<open>row[k] = v\<close> in the order of the source.
  \<open>game_result.get\<close> raises \<open>AttributeError\<close> when the record is not a dict, and
  so does \<open>power_cards_owned.items()\<close> when that value is true but not a dict.
  \<open>end_date['iso']\<close> is read only after the test \<open>'iso' in end_date\<close>.
\<close>

definition extract_fields :: "json \<Rightarrow> py_error + pydict" where
  "extract_fields game_result =
     (case game_result of
        JObj g \<Rightarrow>
     (let row = [];
        row = dict_setitem row ''objectId'' (dict_get g ''objectId'' (JStr ''''));
        row = dict_setitem row ''adversary'' (dict_get g ''adversary'' (JStr ''''));
        row = dict_setitem row ''adversaryLevel'' (dict_get g ''adversaryLevel'' (JStr ''''));
        row = dict_setitem row ''scenario'' (dict_get g ''scenario'' (JStr ''''));
        row = dict_setitem row ''usingEvents'' (dict_get g ''usingEvents'' (JBool False));
        row = dict_setitem row ''usingTokens'' (dict_get g ''usingTokens'' (JBool False));
        row = dict_setitem row ''isMultiplayer'' (dict_get g ''isMultiplayer'' (JBool False));
        row = dict_setitem row ''waveNumber'' (dict_get g ''waveNumber'' (JStr ''''));
        row = dict_setitem row ''endingResult'' (dict_get g ''endingResult'' (JStr ''''));
        row = dict_setitem row ''blightCard'' (dict_get g ''blightCard'' (JStr ''''));
        row = dict_setitem row ''blightCardFlipped'' (dict_get g ''blightCardFlipped'' (JBool False));
        row = dict_setitem row ''blightRemaining'' (dict_get g ''blightRemaining'' (JStr ''''));
        row = dict_setitem row ''score'' (dict_get g ''score'' (JStr ''''));
        row = dict_setitem row ''turn'' (dict_get g ''turn'' (JStr ''''));
        row = dict_setitem row ''invaderCardsInDeck'' (dict_get g ''invaderCardsInDeck'' (JStr ''''));
        row = dict_setitem row ''invaderCardsNotInDeck'' (dict_get g ''invaderCardsNotInDeck'' (JStr ''''));
        row = dict_setitem row ''blightOnIsland'' (dict_get g ''blightOnIsland'' (JStr ''''));
        row = dict_setitem row ''dahanOnIsland'' (dict_get g ''dahanOnIsland'' (JStr ''''));
        row = dict_setitem row ''terrorLevel'' (dict_get g ''terrorLevel'' (JStr ''''));
        row = dict_setitem row ''installationId'' (dict_get g ''installationId'' (JStr ''''));
        end_date = dict_get g ''endDate'' (JObj [])
      in
      bind_result (case end_date of
              JObj ed \<Rightarrow>
                if dict_contains ed ''iso'' then dict_getitem ed ''iso'' else Inr (JStr '''')
            | _ \<Rightarrow> Inr (JStr '''')) (\<lambda>end_iso.
      let row = dict_setitem row ''endDate'' end_iso;
          row = dict_setitem row ''createdAt'' (dict_get g ''createdAt'' (JStr ''''));
          row = dict_setitem row ''updatedAt'' (dict_get g ''updatedAt'' (JStr '''')) in
      bind_result (flatten_value (dict_get g ''spirits'' (JArr []))) (\<lambda>flat.
      let row = dict_setitem row ''spirits'' flat in
      bind_result (flatten_value (dict_get g ''boards'' (JArr []))) (\<lambda>flat.
      let row = dict_setitem row ''boards'' flat in
      bind_result (flatten_value (dict_get g ''powerProgressionSpirits'' (JArr []))) (\<lambda>flat.
      let row = dict_setitem row ''powerProgressionSpirits'' flat in
      bind_result (flatten_value (dict_get g ''practiceModes'' (JArr []))) (\<lambda>flat.
      let row = dict_setitem row ''practiceModes'' flat in
      bind_result (flatten_value (dict_get g ''powerCardsInDiscard'' (JArr []))) (\<lambda>flat.
      let row = dict_setitem row ''powerCardsInDiscard'' flat in
      bind_result (flatten_value (dict_get g ''emptyPresenceTrackNodes'' (JArr []))) (\<lambda>flat.
      let row = dict_setitem row ''emptyPresenceTrackNodes'' flat in
      bind_result (flatten_value (dict_get g ''layout'' (JObj []))) (\<lambda>flat.
      let row = dict_setitem row ''layout'' flat;
          power_cards_owned = dict_get g ''powerCardsOwned'' (JObj []) in
      if truthy power_cards_owned then
        (case power_cards_owned of
           JObj pco \<Rightarrow>
             Inr (dict_setitem row ''powerCardsOwned''
                    (JStr (join ''; '' (cards_loop pco []))))
         | _ \<Rightarrow> Inl (AttributeError (type_name power_cards_owned) ''items''))
      else Inr (dict_setitem row ''powerCardsOwned'' (JStr '''')))))))))))
      | _ \<Rightarrow> Inl (AttributeError (type_name game_result) ''get''))"

text \<open>
  The first thirty cells of a row, as the assignments of \<open>extract_fields\<close> give them
  to a record \<open>g\<close> that is a dict: the value \<open>flatten_value\<close> returns stands where
  the source calls it. The last cell, \<open>powerCardsOwned\<close>, comes after them.
\<close>

definition first_columns :: "pydict \<Rightarrow> pydict" where
  "first_columns g =
     [(''objectId'', dict_get g ''objectId'' (JStr '''')),
      (''adversary'', dict_get g ''adversary'' (JStr '''')),
      (''adversaryLevel'', dict_get g ''adversaryLevel'' (JStr '''')),
      (''scenario'', dict_get g ''scenario'' (JStr '''')),
      (''usingEvents'', dict_get g ''usingEvents'' (JBool False)),
      (''usingTokens'', dict_get g ''usingTokens'' (JBool False)),
      (''isMultiplayer'', dict_get g ''isMultiplayer'' (JBool False)),
      (''waveNumber'', dict_get g ''waveNumber'' (JStr '''')),
      (''endingResult'', dict_get g ''endingResult'' (JStr '''')),
      (''blightCard'', dict_get g ''blightCard'' (JStr '''')),
      (''blightCardFlipped'', dict_get g ''blightCardFlipped'' (JBool False)),
      (''blightRemaining'', dict_get g ''blightRemaining'' (JStr '''')),
      (''score'', dict_get g ''score'' (JStr '''')),
      (''turn'', dict_get g ''turn'' (JStr '''')),
      (''invaderCardsInDeck'', dict_get g ''invaderCardsInDeck'' (JStr '''')),
      (''invaderCardsNotInDeck'', dict_get g ''invaderCardsNotInDeck'' (JStr '''')),
      (''blightOnIsland'', dict_get g ''blightOnIsland'' (JStr '''')),
      (''dahanOnIsland'', dict_get g ''dahanOnIsland'' (JStr '''')),
      (''terrorLevel'', dict_get g ''terrorLevel'' (JStr '''')),
      (''installationId'', dict_get g ''installationId'' (JStr '''')),
      (''endDate'',
        case dict_get g ''endDate'' (JObj []) of
          JObj ed \<Rightarrow> dict_get ed ''iso'' (JStr '''')
        | _ \<Rightarrow> JStr ''''),
      (''createdAt'', dict_get g ''createdAt'' (JStr '''')),
      (''updatedAt'', dict_get g ''updatedAt'' (JStr '''')),
      (''spirits'', flattened (dict_get g ''spirits'' (JArr []))),
      (''boards'', flattened (dict_get g ''boards'' (JArr []))),
      (''powerProgressionSpirits'', flattened (dict_get g ''powerProgressionSpirits'' (JArr []))),
      (''practiceModes'', flattened (dict_get g ''practiceModes'' (JArr []))),
      (''powerCardsInDiscard'', flattened (dict_get g ''powerCardsInDiscard'' (JArr []))),
      (''emptyPresenceTrackNodes'', flattened (dict_get g ''emptyPresenceTrackNodes'' (JArr []))),
      (''layout'', flattened (dict_get g ''layout'' (JObj [])))]"

text \<open>One entry \<open>category: item1, item2\<close> of the \<open>powerCardsOwned\<close> column.\<close>

fun ownership_entry :: "string \<times> json \<Rightarrow> string" where
  "ownership_entry (category, items) =
     category @ '': '' @
     (case items of JArr cs \<Rightarrow> join '', '' (map py_str cs) | _ \<Rightarrow> py_str items)"

text \<open>The columns, in the order in which the source assigns them.\<close>

definition fieldnames_schema :: "string list" where
  "fieldnames_schema =
     [''objectId'', ''adversary'', ''adversaryLevel'', ''scenario'', ''usingEvents'',
      ''usingTokens'', ''isMultiplayer'', ''waveNumber'', ''endingResult'', ''blightCard'',
      ''blightCardFlipped'', ''blightRemaining'', ''score'', ''turn'',
      ''invaderCardsInDeck'', ''invaderCardsNotInDeck'', ''blightOnIsland'',
      ''dahanOnIsland'', ''terrorLevel'', ''installationId'', ''endDate'', ''createdAt'',
      ''updatedAt'', ''spirits'', ''boards'', ''powerProgressionSpirits'',
      ''practiceModes'', ''powerCardsInDiscard'', ''emptyPresenceTrackNodes'', ''layout'',
      ''powerCardsOwned'']"

section \<open>\<open>main\<close>\<close>

text \<open>
  What \<open>main\<close> finds when it opens \<open>GameResult2.json\<close> and hands it to
  \<open>json.load\<close>: no file (\<open>FileNotFoundError\<close>), a text that is not JSON
  (\<open>JSONDecodeError\<close>), another exception, or the parsed document, which may be any
  JSON value. The other exceptions are the ones the source has no handler for:
  \<open>UnicodeDecodeError\<close> on bytes that are not UTF-8, \<open>ValueError\<close> on an integer
  with more digits than the interpreter converts, \<open>RecursionError\<close> on a document
  nested too deep, \<open>OSError\<close> on a file that cannot be read. The output file can be
  opened and takes every byte written to it: a disk or a permission that fails on
  writing is not part of the model.
\<close>

datatype input_file = FileMissing | InvalidJSON | LoadRaises py_error | Document json

text \<open>The lines printed to standard output and to standard error.\<close>

datatype stdout_msg =
    Reading
  | Found nat
  | Writing
  | Converted nat
  | Columns nat
  | SampleColumns string

datatype stderr_msg =
    ErrNotFound
  | ErrInvalidJSON
  | ErrNoResultsKey
  | WarnRecord nat py_error  \<comment> \<open>\<open>Warning: Error processing game result n: e\<close>\<close>
  | ErrNoValid
  | Traceback py_error  \<comment> \<open>an exception nobody caught\<close>

text \<open>
  The CSV file as \<open>csv.DictWriter\<close> has written it: the header and the cells of
  each data row. The quoting of a cell is the \<open>csv\<close> module's. A file that was
  opened and got no line has an empty header and no data row.
\<close>

record csv_file =
  header :: "string list"
  data_rows :: "json list list"

text \<open>
  How the process ends: its exit status, what it printed, and the output file it
  left (\<open>None\<close> when it never opened \<open>GameResult2.csv\<close>). An exception that
  nobody catches prints a traceback to standard error and ends the process with
  status 1.
\<close>

record outcome =
  exit_status :: nat
  stdout :: "stdout_msg list"
  stderr :: "stderr_msg list"
  output_file :: "csv_file option"

fun starts_with :: "string \<Rightarrow> string \<Rightarrow> bool" where
  "starts_with [] s = True"
| "starts_with (p # ps) [] = False"
| "starts_with (p # ps) (c # cs) = (p = c \<and> starts_with ps cs)"

fun str_contains :: "string \<Rightarrow> string \<Rightarrow> bool" where
  \<comment> \<open>\<open>sub in s\<close> on strings\<close>
  "str_contains sub [] = (sub = [])"
| "str_contains sub (c # cs) = (starts_with sub (c # cs) \<or> str_contains sub cs)"

fun py_contains :: "json \<Rightarrow> string \<Rightarrow> py_error + bool" where
  \<comment> \<open>\<open>k in data\<close>, for a string \<open>k\<close>\<close>
  "py_contains (JObj d) k = Inr (dict_contains d k)"
| "py_contains (JArr xs) k = Inr (JStr k \<in> set xs)"
| "py_contains (JStr s) k = Inr (str_contains k s)"
| "py_contains v k = Inl (TypeError (type_name v))"

fun py_getitem :: "json \<Rightarrow> string \<Rightarrow> py_error + json" where
  \<comment> \<open>\<open>data[k]\<close>, for a string \<open>k\<close>\<close>
  "py_getitem (JObj d) k = dict_getitem d k"
| "py_getitem v k = Inl (TypeError (type_name v))"

text \<open>
  The code points of a str: a byte from \<open>0x80\<close> to \<open>0xBF\<close> continues the code point
  of the byte before it.
\<close>

definition is_continuation :: "char \<Rightarrow> bool" where
  "is_continuation c = (128 \<le> (of_char c :: nat) \<and> (of_char c :: nat) < 192)"

fun code_points :: "string \<Rightarrow> string list" where
  "code_points [] = []"
| "code_points (c # cs) =
     (if cs \<noteq> [] \<and> is_continuation (hd cs)
      then (case code_points cs of
              [] \<Rightarrow> [[c]]
            | p # ps \<Rightarrow> (c # p) # ps)
      else [c] # code_points cs)"

fun py_len :: "json \<Rightarrow> py_error + nat" where
  "py_len (JArr xs) = Inr (length xs)"
| "py_len (JObj d) = Inr (length d)"
| "py_len (JStr s) = Inr (length (code_points s))"
| "py_len v = Inl (TypeError (type_name v))"

fun py_iter :: "json \<Rightarrow> py_error + json list" where
  \<comment> \<open>the values a \<open>for\<close> loop over \<open>v\<close> goes through\<close>
  "py_iter (JArr xs) = Inr xs"
| "py_iter (JObj d) = Inr (map (\<lambda>kv. JStr (fst kv)) d)"
| "py_iter (JStr s) = Inr (map JStr (code_points s))"
| "py_iter v = Inl (TypeError (type_name v))"

text \<open>
  The loop over \<open>enumerate(results)\<close>: \<open>i\<close> is the index of the record at the head,
  \<open>rows\<close> the list built so far, \<open>err\<close> the warnings printed so far.
\<close>

fun extract_loop ::
  "json list \<Rightarrow> nat \<Rightarrow> pydict list \<Rightarrow> stderr_msg list \<Rightarrow> pydict list \<times> stderr_msg list" where
  "extract_loop [] i rows err = (rows, err)"
| "extract_loop (game_result # rest) i rows err =
     (case extract_fields game_result of
        Inr row \<Rightarrow> extract_loop rest (i + 1) (rows @ [row]) err
      | Inl e \<Rightarrow> extract_loop rest (i + 1) rows (err @ [WarnRecord (i + 1) e]))"

text \<open>
  \<open>csv.DictWriter\<close>, with its defaults \<open>restval=''\<close> and \<open>extrasaction='raise'\<close>:
  a row with a key that is not a field name raises \<open>ValueError\<close>, a field name the
  row lacks gives the empty string.
\<close>

definition dict_to_list :: "string list \<Rightarrow> pydict \<Rightarrow> py_error + json list" where
  "dict_to_list fieldnames rowdict =
     (if list_ex (\<lambda>k. k \<notin> set fieldnames) (map fst rowdict)
      then Inl (ValueError ''dict contains fields not in fieldnames'')
      else Inr (map (\<lambda>k. dict_get rowdict k (JStr '''')) fieldnames))"

text \<open>
  The writer turns a cell into text (nothing for \<open>None\<close>, the str itself, \<open>str\<close> of
  any other value) and writes the line of a row in one piece to the file, which was
  opened with \<open>encoding='utf-8'\<close>. The codec raises \<open>UnicodeEncodeError\<close> on a lone
  surrogate, and then nothing of the line is written. \<open>writerows\<close> writes row after
  row; the rows before a failing one are in the file.
\<close>

fun has_surrogate :: "string \<Rightarrow> bool" where
  "has_surrogate (c # c2 # cs) =
     (c = CHR 0xED \<and> 160 \<le> (of_char c2 :: nat) \<or> has_surrogate (c2 # cs))"
| "has_surrogate cs = False"

definition cell_text :: "json \<Rightarrow> string" where
  "cell_text v = (case v of JNull \<Rightarrow> '''' | _ \<Rightarrow> py_str v)"

definition encode_line :: "string list \<Rightarrow> py_error + unit" where
  \<comment> \<open>the codec on the line made of these texts\<close>
  "encode_line texts = (if list_ex has_surrogate texts then Inl UnicodeEncodeError else Inr ())"

fun writerows ::
  "string list \<Rightarrow> pydict list \<Rightarrow> json list list \<Rightarrow> json list list \<times> py_error option" where
  "writerows fieldnames [] written = (written, None)"
| "writerows fieldnames (rowdict # rest) written =
     (case dict_to_list fieldnames rowdict of
        Inl e \<Rightarrow> (written, Some e)
      | Inr cells \<Rightarrow>
          (case encode_line (map cell_text cells) of
             Inl e \<Rightarrow> (written, Some e)
           | Inr u \<Rightarrow> writerows fieldnames rest (written @ [cells])))"

definition first_row :: "pydict list \<Rightarrow> py_error + pydict" where
  \<comment> \<open>\<open>rows[0]\<close>\<close>
  "first_row rows = (case rows of [] \<Rightarrow> Inl IndexError | row # _ \<Rightarrow> Inr row)"

definition uncaught ::
  "stdout_msg list \<Rightarrow> stderr_msg list \<Rightarrow> py_error \<Rightarrow> csv_file option \<Rightarrow> outcome" where
  "uncaught out err e file =
     \<lparr>exit_status = 1, stdout = out, stderr = err @ [Traceback e], output_file = file\<rparr>"

definition main :: "input_file \<Rightarrow> outcome" where
  "main input_file =
     (let out = [Reading] in
      case input_file of
        FileMissing \<Rightarrow>
          \<lparr>exit_status = 1, stdout = out, stderr = [ErrNotFound], output_file = None\<rparr>
      | InvalidJSON \<Rightarrow>
          \<lparr>exit_status = 1, stdout = out, stderr = [ErrInvalidJSON], output_file = None\<rparr>
      | LoadRaises e \<Rightarrow> uncaught out [] e None
      | Document data \<Rightarrow>
         (case py_contains data ''results'' of
            Inl e \<Rightarrow> uncaught out [] e None
          | Inr False \<Rightarrow>
              \<lparr>exit_status = 1, stdout = out, stderr = [ErrNoResultsKey], output_file = None\<rparr>
          | Inr True \<Rightarrow>
         (case py_getitem data ''results'' of
            Inl e \<Rightarrow> uncaught out [] e None
          | Inr results \<Rightarrow>
         (case py_len results of
            Inl e \<Rightarrow> uncaught out [] e None
          | Inr n \<Rightarrow>
         (let out = out @ [Found n] in
          case py_iter results of
            Inl e \<Rightarrow> uncaught out [] e None
          | Inr game_results \<Rightarrow>
         (case extract_loop game_results 0 [] [] of (rows, err) \<Rightarrow>
          if rows = [] then
            \<lparr>exit_status = 1, stdout = out, stderr = err @ [ErrNoValid], output_file = None\<rparr>
          else
         (case first_row rows of
            Inl e \<Rightarrow> uncaught out err e None
          | Inr row0 \<Rightarrow>
         (let fieldnames = map fst row0;
              out = out @ [Writing] in
          case encode_line fieldnames of
            Inl e \<Rightarrow> uncaught out err e (Some \<lparr>header = [], data_rows = []\<rparr>)
          | Inr u \<Rightarrow>
         (case writerows fieldnames rows [] of
            (written, Some e) \<Rightarrow>
              uncaught out err e (Some \<lparr>header = fieldnames, data_rows = written\<rparr>)
          | (written, None) \<Rightarrow>
              \<lparr>exit_status = 0,
               stdout = out @ [Converted (length rows), Columns (length fieldnames),
                               SampleColumns (join '', '' (take 10 fieldnames) @ ''...'')],
               stderr = err,
               output_file = Some \<lparr>header = fieldnames, data_rows = written\<rparr>\<rparr>)))))))))"

text \<open>The words of the specification about a run, for the statements below.\<close>

definition records_of :: "input_file \<Rightarrow> json list" where
  \<comment> \<open>the records of the document: the elements of its \<open>results\<close> array\<close>
  "records_of input_file =
     (case input_file of
        Document (JObj d) \<Rightarrow> (case map_of d ''results'' of Some (JArr rs) \<Rightarrow> rs | _ \<Rightarrow> [])
      | _ \<Rightarrow> [])"


definition extracted_rows :: "json list \<Rightarrow> pydict list" where
  \<comment> \<open>the rows of the records on which extraction succeeds, in order\<close>
  "extracted_rows rs =
     concat (map (\<lambda>r. case extract_fields r of Inl e \<Rightarrow> [] | Inr row \<Rightarrow> [row]) rs)"

definition skip_warnings :: "nat \<Rightarrow> json list \<Rightarrow> stderr_msg list" where
  \<comment> \<open>one warning per record on which extraction raises, records counted from \<open>n\<close>\<close>
  "skip_warnings n rs =
     concat (map (\<lambda>(i, r). case extract_fields r of Inl e \<Rightarrow> [WarnRecord i e] | Inr row \<Rightarrow> [])
                 (enumerate n rs))"



definition encodable_row :: "pydict \<Rightarrow> bool" where
  \<comment> \<open>UTF-8 can encode the text of every cell of the row\<close>
  "encodable_row rowdict = list_all (\<lambda>kv. \<not> has_surrogate (cell_text (snd kv))) rowdict"


definition written_rows :: "pydict list \<Rightarrow> json list list" where
  \<comment> \<open>the cells of the rows before the first one that cannot be encoded\<close>
  "written_rows rows = map (map snd) (takeWhile encodable_row rows)"

fun is_error_msg :: "stderr_msg \<Rightarrow> bool" where
  "is_error_msg (WarnRecord i e) = False"
| "is_error_msg m = True"

section \<open>The flattener on scalars, arrays and objects\<close>

lemma flatten_items_returns:
  "(\<And>k v. (k, v) \<in> set d \<Longrightarrow> \<exists>r. flatten_value v = Inr r) \<Longrightarrow>
   \<exists>r. flatten_items d items = Inr r"
proof (induction d arbitrary: items)
  case Nil
  show ?case by simp
next
  case (Cons kv d)
  obtain k v where kv: "kv = (k, v)" by (cases kv)
  from Cons.prems kv obtain r where r: "flatten_value v = Inr r" by auto
  have "\<And>k v. (k, v) \<in> set d \<Longrightarrow> \<exists>r. flatten_value v = Inr r"
    using Cons.prems by auto
  from Cons.IH [OF this] show ?case by (simp add: kv r)
qed

lemma flatten_value_returns: "\<exists>r. flatten_value v = Inr r"
proof (induction v)
  case (JObj d)
  have vals: "\<And>k v. (k, v) \<in> set d \<Longrightarrow> \<exists>r. flatten_value v = Inr r"
  proof -
    fix k v assume "(k, v) \<in> set d"
    then have "v \<in> Basic_BNFs.snds (k, v)" "(k, v) \<in> set d" by auto
    then show "\<exists>r. flatten_value v = Inr r" using JObj.IH by blast
  qed
  from flatten_items_returns [where d = d and items = "[]"] vals
  obtain items where "flatten_items d [] = Inr items" by blast
  then show ?case
    by (auto simp: dict_contains_def dict_getitem_def split: option.splits bool.splits)
qed simp_all

lemma flatten_value_flattened: "flatten_value v = Inr (flattened v)"
  using flatten_value_returns [of v] by (auto simp: flattened_def)

lemma flatten_items_eq:
  "flatten_items d items = Inr (items @ map pair_text d)"
proof (induction d arbitrary: items)
  case Nil
  show ?case by simp
next
  case (Cons kv d)
  obtain k v where kv: "kv = (k, v)" by (cases kv)
  show ?case by (simp add: kv Cons.IH flatten_value_flattened)
qed

text \<open>
  C3. On a scalar the flattener returns the empty string for \<open>None\<close>, the text
  \<open>True\<close> or \<open>False\<close> for a boolean, the number itself for an \<open>int\<close> or a
  \<open>float\<close>, and the string itself for a string.
\<close>

theorem flatten_value_scalar:
  "flatten_value JNull = Inr (JStr '''')
   \<and> flatten_value (JBool True) = Inr (JStr ''True'')
   \<and> flatten_value (JBool False) = Inr (JStr ''False'')
   \<and> flatten_value (JInt i) = Inr (JInt i)
   \<and> flatten_value (JFloat r) = Inr (JFloat r)
   \<and> flatten_value (JStr s) = Inr (JStr s)"
  by (simp add: py_str_def)

lemma flatten_value_plain_object:
  assumes "map_of d ''__type'' \<noteq> Some (JStr ''Date'')"
  shows "flatten_value (JObj d) = Inr (JStr (join ''; '' (map pair_text d)))"
proof (cases "map_of d ''__type''")
  case None
  then show ?thesis
    by (cases d) (simp_all add: dict_contains_def flatten_items_eq del: flatten_items.simps)
next
  case (Some t)
  with assms have "t \<noteq> JStr ''Date''" by simp
  with Some show ?thesis
    by (cases d)
      (simp_all add: dict_contains_def dict_getitem_def flatten_items_eq del: flatten_items.simps)
qed

lemma repr_elems_map: "repr_elems xs = map py_repr xs"
  by (induction xs) simp_all

text \<open>
  C4. On an array the flattener returns the \<open>str\<close> of the elements, joined with a
  comma and a space in the order of the array, and the empty string on the empty array.
  An element that is itself an array or an object is not flattened: its text is its
  \<open>repr\<close>, with brackets or braces around the \<open>repr\<close> of what it holds.
\<close>

theorem flatten_value_array:
  "flatten_value (JArr xs) = Inr (JStr (join '', '' (map py_str xs)))
   \<and> flatten_value (JArr []) = Inr (JStr '''')
   \<and> py_str (JArr ys) = ''['' @ join '', '' (map py_repr ys) @ '']''
   \<and> py_str (JObj d) = ''{'' @ join '', '' (repr_items d) @ ''}''"
  by (simp add: py_str_def repr_elems_map)

text \<open>
  The array \<open>["a", "b", "c"]\<close> gives \<open>a, b, c\<close>, and \<open>[1, [2, "x"], {"k": null}]\<close>
  gives \<open>1, [2, 'x'], {'k': None}\<close>.
\<close>

theorem flatten_value_array_witness:
  "flatten_value (JArr [JStr ''a'', JStr ''b'', JStr ''c'']) = Inr (JStr ''a, b, c'')
   \<and> flatten_value (JArr [JInt 1, JArr [JInt 2, JStr ''x''], JObj [(''k'', JNull)]]) =
       Inr (JStr (''1, [2, '' @ [CHR 0x27] @ ''x'' @ [CHR 0x27] @ ''], {''
                  @ [CHR 0x27] @ ''k'' @ [CHR 0x27] @ '': None}''))"
  using flatten_value_array [of "[JStr ''a'', JStr ''b'', JStr ''c'']"]
    flatten_value_array [of "[JInt 1, JArr [JInt 2, JStr ''x''], JObj [(''k'', JNull)]]"]
  by (simp add: py_str_def str_int_def str_nat.simps digit_char_def repr_str_def
      escape_char_def hex2_def Let_def)

text \<open>
  C5. On an object whose \<open>__type\<close> field is the string \<open>Date\<close> the flattener returns
  the value of the \<open>iso\<close> field, and the empty string when there is no such field.
\<close>

theorem flatten_value_date_wrapper:
  assumes "map_of d ''__type'' = Some (JStr ''Date'')"
  shows "flatten_value (JObj d) =
           Inr (case map_of d ''iso'' of Some v \<Rightarrow> v | None \<Rightarrow> JStr '''')"
  using assms by (simp add: dict_contains_def dict_getitem_def dict_get_def)

theorem flatten_value_date_wrapper_witness:
  "flatten_value
     (JObj [(''__type'', JStr ''Date''), (''iso'', JStr ''2024-01-01T00:00:00Z'')]) =
     Inr (JStr ''2024-01-01T00:00:00Z'')
   \<and> flatten_value (JObj [(''__type'', JStr ''Date'')]) = Inr (JStr '''')"
  using
    flatten_value_date_wrapper
      [of "[(''__type'', JStr ''Date''), (''iso'', JStr ''2024-01-01T00:00:00Z'')]"]
    flatten_value_date_wrapper [of "[(''__type'', JStr ''Date'')]"]
  by simp

text \<open>
  C6. On an object that is not a date wrapper the flattener returns the pairs
  \<open>key: value\<close> joined with a semicolon and a space, in the order of the keys. The
  value of a pair is the \<open>str\<close> of what the flattener returns on it when it is an
  array or an object, and its own \<open>str\<close> otherwise. The empty object gives the empty
  string.
\<close>

theorem flatten_value_object:
  assumes "\<not> is_date_wrapper d"
  shows "flatten_value (JObj d) = Inr (JStr (join ''; '' (map pair_text d)))
         \<and> flatten_value v = Inr (flattened v)
         \<and> flatten_value (JObj []) = Inr (JStr '''')"
proof -
  from assms have "map_of d ''__type'' \<noteq> Some (JStr ''Date'')"
    by (simp add: is_date_wrapper_def)
  then have "flatten_value (JObj d) = Inr (JStr (join ''; '' (map pair_text d)))"
    by (rule flatten_value_plain_object)
  moreover have "flatten_value (JObj []) = Inr (JStr '''')"
    by (simp add: dict_contains_def)
  ultimately show ?thesis
    by (simp add: flatten_value_flattened)
qed

theorem flatten_value_object_witness:
  "flatten_value (JObj [(''x'', JInt 1), (''y'', JArr [JInt 2, JInt 3])]) =
     Inr (JStr ''x: 1; y: 2, 3'')"
  using flatten_value_object [of "[(''x'', JInt 1), (''y'', JArr [JInt 2, JInt 3])]"]
  by (simp add: is_date_wrapper_def flattened_def py_str_def str_int_def str_nat.simps
      digit_char_def)

text \<open>
  C10, as the claim has it, fails: the flattener returns the number \<open>3\<close> on the number
  \<open>3\<close>, and the number \<open>5\<close> on a date wrapper whose \<open>iso\<close> field is \<open>5\<close>; neither
  result is a string.
\<close>

theorem flatten_value_not_always_str:
  "flatten_value (JInt 3) = Inr (JInt 3) \<and> is_str (JInt 3) = False
   \<and> flatten_value (JObj [(''__type'', JStr ''Date''), (''iso'', JInt 5)]) = Inr (JInt 5)
   \<and> is_str (JInt 5) = False"
  by (simp add: dict_contains_def dict_getitem_def dict_get_def)

text \<open>
  C10, amended. The flattener is total: on every input it returns a value and raises
  nothing, and a value of an unexpected type falls through to the last branch, which
  returns its \<open>str\<close>. The value returned is a string, with two exceptions: on a
  number it is that number, unchanged, and on a date wrapper it is the value of the
  \<open>iso\<close> field, whatever its type (the empty string when there is no such field).
  The first part of the statement gives the value returned on each kind of input, the
  second says when it is a string.
\<close>

theorem flatten_value_total:
  "flatten_value v =
     Inr (case v of
            JNull \<Rightarrow> JStr ''''
          | JBool b \<Rightarrow> JStr (if b then ''True'' else ''False'')
          | JInt i \<Rightarrow> JInt i
          | JFloat x \<Rightarrow> JFloat x
          | JStr s \<Rightarrow> JStr s
          | JArr xs \<Rightarrow> JStr (join '', '' (map py_str xs))
          | JObj d \<Rightarrow>
              if is_date_wrapper d
              then (case map_of d ''iso'' of Some w \<Rightarrow> w | None \<Rightarrow> JStr '''')
              else JStr (join ''; '' (map pair_text d))
          | JOther t s r b \<Rightarrow> JStr s)
   \<and> is_str (flattened v) =
       (case v of
          JInt i \<Rightarrow> False
        | JFloat x \<Rightarrow> False
        | JObj d \<Rightarrow>
            if is_date_wrapper d
            then is_str (case map_of d ''iso'' of Some w \<Rightarrow> w | None \<Rightarrow> JStr '''')
            else True
        | _ \<Rightarrow> True)"
proof -
  have result: "flatten_value v =
     Inr (case v of
            JNull \<Rightarrow> JStr ''''
          | JBool b \<Rightarrow> JStr (if b then ''True'' else ''False'')
          | JInt i \<Rightarrow> JInt i
          | JFloat x \<Rightarrow> JFloat x
          | JStr s \<Rightarrow> JStr s
          | JArr xs \<Rightarrow> JStr (join '', '' (map py_str xs))
          | JObj d \<Rightarrow>
              if is_date_wrapper d
              then (case map_of d ''iso'' of Some w \<Rightarrow> w | None \<Rightarrow> JStr '''')
              else JStr (join ''; '' (map pair_text d))
          | JOther t s r b \<Rightarrow> JStr s)"
  proof (cases v)
    case (JObj d)
    show ?thesis
    proof (cases "is_date_wrapper d")
      case True
      then show ?thesis
        by (simp add: JObj is_date_wrapper_def dict_contains_def dict_getitem_def dict_get_def)
    next
      case False
      then have "flatten_value (JObj d) = Inr (JStr (join ''; '' (map pair_text d)))"
        by (intro flatten_value_plain_object) (simp add: is_date_wrapper_def)
      with False show ?thesis by (simp add: JObj)
    qed
  qed (simp_all add: py_str_def)
  then have "flattened v =
     (case v of
            JNull \<Rightarrow> JStr ''''
          | JBool b \<Rightarrow> JStr (if b then ''True'' else ''False'')
          | JInt i \<Rightarrow> JInt i
          | JFloat x \<Rightarrow> JFloat x
          | JStr s \<Rightarrow> JStr s
          | JArr xs \<Rightarrow> JStr (join '', '' (map py_str xs))
          | JObj d \<Rightarrow>
              if is_date_wrapper d
              then (case map_of d ''iso'' of Some w \<Rightarrow> w | None \<Rightarrow> JStr '''')
              else JStr (join ''; '' (map pair_text d))
          | JOther t s r b \<Rightarrow> JStr s)"
    by (simp add: flattened_def)
  then have "is_str (flattened v) =
       (case v of
          JInt i \<Rightarrow> False
        | JFloat x \<Rightarrow> False
        | JObj d \<Rightarrow>
            if is_date_wrapper d
            then is_str (case map_of d ''iso'' of Some w \<Rightarrow> w | None \<Rightarrow> JStr '''')
            else True
        | _ \<Rightarrow> True)"
    by (simp split: json.splits)
  with result show ?thesis by simp
qed

text \<open>
  An object that is no date wrapper gives a string, a number gives itself, a date
  wrapper whose \<open>iso\<close> field is a list gives that list, and a value of another type
  gives its \<open>str\<close>.
\<close>

theorem flatten_value_total_witness:
  "flatten_value (JObj [(''a'', JNull)]) = Inr (JStr ''a: None'')
   \<and> flatten_value (JFloat ''3.5'') = Inr (JFloat ''3.5'')
   \<and> flatten_value (JObj [(''__type'', JStr ''Date''), (''iso'', JArr [JInt 1])]) =
       Inr (JArr [JInt 1])
   \<and> flatten_value (JOther ''datetime'' ''2024-01-01 00:00:00''
                       ''datetime.datetime(2024, 1, 1, 0, 0)'' True) =
       Inr (JStr ''2024-01-01 00:00:00'')"
  using flatten_value_total [of "JObj [(''a'', JNull)]"] flatten_value_total [of "JFloat ''3.5''"]
    flatten_value_total [of "JObj [(''__type'', JStr ''Date''), (''iso'', JArr [JInt 1])]"]
    flatten_value_total [of "JOther ''datetime'' ''2024-01-01 00:00:00''
                       ''datetime.datetime(2024, 1, 1, 0, 0)'' True"]
  by (simp add: is_date_wrapper_def py_str_def)

section \<open>The row of a record\<close>

lemma bind_result_Inr: "bind_result (Inr x) f = f x"
  by (simp add: bind_result_def)

lemma end_date_returns:
  "(case end_date of
      JObj ed \<Rightarrow> if dict_contains ed ''iso'' then dict_getitem ed ''iso'' else Inr (JStr '''')
    | _ \<Rightarrow> Inr (JStr '''')) =
   Inr (case end_date of JObj ed \<Rightarrow> dict_get ed ''iso'' (JStr '''') | _ \<Rightarrow> JStr '''')"
  by (auto simp: dict_contains_def dict_getitem_def dict_get_def split: json.splits option.splits)

lemma row30:
  "dict_setitem (dict_setitem (dict_setitem (dict_setitem (dict_setitem (dict_setitem
     (dict_setitem (dict_setitem (dict_setitem (dict_setitem (dict_setitem (dict_setitem
     (dict_setitem (dict_setitem (dict_setitem (dict_setitem (dict_setitem (dict_setitem
     (dict_setitem (dict_setitem (dict_setitem (dict_setitem (dict_setitem (dict_setitem
     (dict_setitem (dict_setitem (dict_setitem (dict_setitem (dict_setitem (dict_setitem
     ([]) ''objectId'' v1) ''adversary'' v2) ''adversaryLevel'' v3) ''scenario'' v4)
     ''usingEvents'' v5) ''usingTokens'' v6) ''isMultiplayer'' v7) ''waveNumber'' v8)
     ''endingResult'' v9) ''blightCard'' v10) ''blightCardFlipped'' v11) ''blightRemaining''
     v12) ''score'' v13) ''turn'' v14) ''invaderCardsInDeck'' v15) ''invaderCardsNotInDeck''
     v16) ''blightOnIsland'' v17) ''dahanOnIsland'' v18) ''terrorLevel'' v19)
     ''installationId'' v20) ''endDate'' v21) ''createdAt'' v22) ''updatedAt'' v23)
     ''spirits'' v24) ''boards'' v25) ''powerProgressionSpirits'' v26) ''practiceModes''
     v27) ''powerCardsInDiscard'' v28) ''emptyPresenceTrackNodes'' v29) ''layout'' v30 =
     [(''objectId'', v1), (''adversary'', v2), (''adversaryLevel'', v3), (''scenario'', v4),
      (''usingEvents'', v5), (''usingTokens'', v6), (''isMultiplayer'', v7),
      (''waveNumber'', v8), (''endingResult'', v9), (''blightCard'', v10),
      (''blightCardFlipped'', v11), (''blightRemaining'', v12), (''score'', v13),
      (''turn'', v14), (''invaderCardsInDeck'', v15), (''invaderCardsNotInDeck'', v16),
      (''blightOnIsland'', v17), (''dahanOnIsland'', v18), (''terrorLevel'', v19),
      (''installationId'', v20), (''endDate'', v21), (''createdAt'', v22),
      (''updatedAt'', v23), (''spirits'', v24), (''boards'', v25),
      (''powerProgressionSpirits'', v26), (''practiceModes'', v27),
      (''powerCardsInDiscard'', v28), (''emptyPresenceTrackNodes'', v29), (''layout'', v30)]"
  by simp

lemma row31:
  "dict_setitem
     [(''objectId'', v1), (''adversary'', v2), (''adversaryLevel'', v3), (''scenario'', v4),
      (''usingEvents'', v5), (''usingTokens'', v6), (''isMultiplayer'', v7),
      (''waveNumber'', v8), (''endingResult'', v9), (''blightCard'', v10),
      (''blightCardFlipped'', v11), (''blightRemaining'', v12), (''score'', v13),
      (''turn'', v14), (''invaderCardsInDeck'', v15), (''invaderCardsNotInDeck'', v16),
      (''blightOnIsland'', v17), (''dahanOnIsland'', v18), (''terrorLevel'', v19),
      (''installationId'', v20), (''endDate'', v21), (''createdAt'', v22),
      (''updatedAt'', v23), (''spirits'', v24), (''boards'', v25),
      (''powerProgressionSpirits'', v26), (''practiceModes'', v27),
      (''powerCardsInDiscard'', v28), (''emptyPresenceTrackNodes'', v29), (''layout'', v30)] ''powerCardsOwned'' v =
     [(''objectId'', v1), (''adversary'', v2), (''adversaryLevel'', v3), (''scenario'', v4),
      (''usingEvents'', v5), (''usingTokens'', v6), (''isMultiplayer'', v7),
      (''waveNumber'', v8), (''endingResult'', v9), (''blightCard'', v10),
      (''blightCardFlipped'', v11), (''blightRemaining'', v12), (''score'', v13),
      (''turn'', v14), (''invaderCardsInDeck'', v15), (''invaderCardsNotInDeck'', v16),
      (''blightOnIsland'', v17), (''dahanOnIsland'', v18), (''terrorLevel'', v19),
      (''installationId'', v20), (''endDate'', v21), (''createdAt'', v22),
      (''updatedAt'', v23), (''spirits'', v24), (''boards'', v25),
      (''powerProgressionSpirits'', v26), (''practiceModes'', v27),
      (''powerCardsInDiscard'', v28), (''emptyPresenceTrackNodes'', v29), (''layout'', v30)] @ [(''powerCardsOwned'', v)]"
  by simp

lemma extract_fields_JObj:
  "extract_fields (JObj g) =
     (let power_cards_owned = dict_get g ''powerCardsOwned'' (JObj []) in
      if truthy power_cards_owned then
        (case power_cards_owned of
           JObj pco \<Rightarrow>
             Inr (first_columns g @ [(''powerCardsOwned'', JStr (join ''; '' (cards_loop pco [])))])
         | _ \<Rightarrow> Inl (AttributeError (type_name power_cards_owned) ''items''))
      else Inr (first_columns g @ [(''powerCardsOwned'', JStr '''')]))"
  unfolding extract_fields_def Let_def first_columns_def
  apply (simp only: json.case bind_result_Inr end_date_returns flatten_value_flattened row30)
  apply (simp only: row31 cong: if_cong json.case_cong)
  done

lemma keys_first_columns: "map fst (first_columns g) = butlast fieldnames_schema"
  by (simp add: first_columns_def fieldnames_schema_def)

lemma fieldnames_schema_snoc: "butlast fieldnames_schema @ [''powerCardsOwned''] = fieldnames_schema"
  by (simp add: fieldnames_schema_def)

lemma distinct_fieldnames_schema: "distinct fieldnames_schema"
  by (simp add: fieldnames_schema_def)

lemma extract_fields_not_dict:
  assumes "\<And>g. r \<noteq> JObj g"
  shows "extract_fields r = Inl (AttributeError (type_name r) ''get'')"
proof (cases r)
  case (JObj g)
  with assms show ?thesis by blast
qed (simp_all add: extract_fields_def)

lemma extract_fields_cases:
  assumes "extract_fields r = Inr row"
  obtains g cell where "r = JObj g" and "row = first_columns g @ [(''powerCardsOwned'', cell)]"
proof -
  have "\<exists>g cell. r = JObj g \<and> row = first_columns g @ [(''powerCardsOwned'', cell)]"
  proof (cases r)
    case (JObj g)
    with assms show ?thesis
      by (auto simp: extract_fields_JObj Let_def split: if_splits json.splits)
  qed (use assms in \<open>simp_all add: extract_fields_def\<close>)
  then show ?thesis using that by blast
qed

lemma extract_fields_keys:
  assumes "extract_fields r = Inr row"
  shows "map fst row = fieldnames_schema"
proof -
  from assms obtain g cell where "row = first_columns g @ [(''powerCardsOwned'', cell)]"
    by (rule extract_fields_cases)
  then show ?thesis
    by (simp add: keys_first_columns fieldnames_schema_snoc)
qed

lemma cards_loop_eq: "cards_loop m cards_strs = cards_strs @ map ownership_entry m"
proof (induction m arbitrary: cards_strs)
  case Nil
  show ?case by simp
next
  case (Cons kv m)
  obtain spirit cards where "kv = (spirit, cards)" by (cases kv)
  then show ?case by (simp add: Cons.IH)
qed

lemma first_columns_no_power_cards: "map_of (first_columns g) ''powerCardsOwned'' = None"
  by (simp add: first_columns_def)

lemma first_columns_dates:
  "map_of (first_columns g) ''endDate'' =
     Some (case dict_get g ''endDate'' (JObj []) of
             JObj ed \<Rightarrow> dict_get ed ''iso'' (JStr '''')
           | _ \<Rightarrow> JStr '''')"
  "map_of (first_columns g) ''createdAt'' = Some (dict_get g ''createdAt'' (JStr ''''))"
  "map_of (first_columns g) ''updatedAt'' = Some (dict_get g ''updatedAt'' (JStr ''''))"
  by (simp_all add: first_columns_def)

section \<open>The run of \<open>main\<close>\<close>

lemma extract_loop_eq:
  "extract_loop rs i rows err = (rows @ extracted_rows rs, err @ skip_warnings (i + 1) rs)"
proof (induction rs arbitrary: i rows err)
  case Nil
  show ?case by (simp add: extracted_rows_def skip_warnings_def)
next
  case (Cons r rs)
  show ?case
    by (cases "extract_fields r") (simp_all add: Cons.IH extracted_rows_def skip_warnings_def)
qed

lemma extracted_rows_keys:
  assumes "row \<in> set (extracted_rows rs)"
  shows "map fst row = fieldnames_schema"
proof -
  from assms obtain r where "extract_fields r = Inr row"
    by (auto simp: extracted_rows_def split: sum.splits)
  then show ?thesis by (rule extract_fields_keys)
qed

lemma extracted_rows_not_dicts:
  assumes "\<And>r. r \<in> set rs \<Longrightarrow> \<forall>g. r \<noteq> JObj g"
  shows "extracted_rows rs = []"
  using assms by (induction rs) (simp_all add: extracted_rows_def extract_fields_not_dict)

lemma dict_to_list_own_keys:
  assumes "distinct (map fst rowdict)"
  shows "dict_to_list (map fst rowdict) rowdict = Inr (map snd rowdict)"
proof -
  have "dict_get rowdict (fst kv) dflt = snd kv" if "kv \<in> set rowdict" for kv dflt
  proof -
    from that have "(fst kv, snd kv) \<in> set rowdict" by simp
    with assms have "map_of rowdict (fst kv) = Some (snd kv)"
      by (rule map_of_is_SomeI)
    then show ?thesis by (simp add: dict_get_def)
  qed
  then have "map (\<lambda>k. dict_get rowdict k (JStr '''')) (map fst rowdict) = map snd rowdict"
    by (simp add: comp_def)
  then show ?thesis
    by (simp add: dict_to_list_def list_ex_iff)
qed

lemma schema_header_encodable: "encode_line fieldnames_schema = Inr ()"
  by (simp add: encode_line_def fieldnames_schema_def)

lemma encode_line_cells:
  "encode_line (map (cell_text \<circ> snd) rowdict) =
     (if encodable_row rowdict then Inr () else Inl UnicodeEncodeError)"
  by (simp add: encode_line_def encodable_row_def list_ex_iff list_all_iff)

lemma writerows_eq:
  assumes "\<And>rowdict. rowdict \<in> set rows \<Longrightarrow> map fst rowdict = fieldnames"
    and "distinct fieldnames"
  shows "writerows fieldnames rows written =
           (written @ written_rows rows,
            if list_all encodable_row rows then None else Some UnicodeEncodeError)"
  using assms(1)
proof (induction rows arbitrary: written)
  case Nil
  show ?case by (simp add: written_rows_def)
next
  case (Cons rowdict rows)
  have keys: "map fst rowdict = fieldnames" by (simp add: Cons.prems)
  with assms(2) have cells: "dict_to_list fieldnames rowdict = Inr (map snd rowdict)"
    using dict_to_list_own_keys [of rowdict] by simp
  show ?case
  proof (cases "encodable_row rowdict")
    case True
    with cells show ?thesis
      by (simp add: encode_line_cells Cons.IH Cons.prems written_rows_def)
  next
    case False
    with cells show ?thesis
      by (simp add: encode_line_cells written_rows_def)
  qed
qed

lemma written_rows_all:
  assumes "list_all encodable_row rows"
  shows "written_rows rows = map (map snd) rows"
proof -
  from assms have "takeWhile encodable_row rows = rows"
    by (simp add: takeWhile_eq_all_conv list_all_iff)
  then show ?thesis by (simp only: written_rows_def)
qed

lemma main_results_array:
  assumes "map_of d ''results'' = Some (JArr rs)"
  shows "main (Document (JObj d)) =
     (if extracted_rows rs = [] then
        \<lparr>exit_status = 1, stdout = [Reading, Found (length rs)],
         stderr = skip_warnings 1 rs @ [ErrNoValid], output_file = None\<rparr>
      else if list_all encodable_row (extracted_rows rs) then
        \<lparr>exit_status = 0,
         stdout = [Reading, Found (length rs), Writing, Converted (length (extracted_rows rs)),
                   Columns (length fieldnames_schema),
                   SampleColumns (join '', '' (take 10 fieldnames_schema) @ ''...'')],
         stderr = skip_warnings 1 rs,
         output_file =
           Some \<lparr>header = fieldnames_schema,
                 data_rows = map (map snd) (extracted_rows rs)\<rparr>\<rparr>
      else
        \<lparr>exit_status = 1, stdout = [Reading, Found (length rs), Writing],
         stderr = skip_warnings 1 rs @ [Traceback UnicodeEncodeError],
         output_file =
           Some \<lparr>header = fieldnames_schema,
                 data_rows = written_rows (extracted_rows rs)\<rparr>\<rparr>)"
proof (cases "extracted_rows rs")
  case Nil
  with assms show ?thesis
    by (simp add: main_def dict_contains_def dict_getitem_def extract_loop_eq)
next
  case (Cons row0 rest)
  have keys: "\<And>rowdict. rowdict \<in> set (extracted_rows rs) \<Longrightarrow> map fst rowdict = fieldnames_schema"
    by (rule extracted_rows_keys)
  have row0: "map fst row0 = fieldnames_schema"
    by (rule keys) (simp add: Cons)
  have written: "writerows fieldnames_schema (extracted_rows rs) [] =
          ([] @ written_rows (extracted_rows rs),
           if list_all encodable_row (extracted_rows rs) then None
           else Some UnicodeEncodeError)"
    using keys distinct_fieldnames_schema by (rule writerows_eq)
  have nonempty: "extracted_rows rs \<noteq> []" by (simp add: Cons)
  have run: "main (Document (JObj d)) =
      (case writerows fieldnames_schema (extracted_rows rs) [] of
         (written, Some e) \<Rightarrow>
           uncaught [Reading, Found (length rs), Writing] (skip_warnings 1 rs) e
             (Some \<lparr>header = fieldnames_schema, data_rows = written\<rparr>)
       | (written, None) \<Rightarrow>
           \<lparr>exit_status = 0,
            stdout = [Reading, Found (length rs), Writing,
                      Converted (length (extracted_rows rs)),
                      Columns (length fieldnames_schema),
                      SampleColumns (join '', '' (take 10 fieldnames_schema) @ ''...'')],
            stderr = skip_warnings 1 rs,
            output_file = Some \<lparr>header = fieldnames_schema, data_rows = written\<rparr>\<rparr>)"
    using assms nonempty row0
    by (simp add: main_def dict_contains_def dict_getitem_def extract_loop_eq first_row_def
        Cons schema_header_encodable)
  show ?thesis
  proof (cases "list_all encodable_row (extracted_rows rs)")
    case True
    with run written nonempty show ?thesis
      by (simp add: written_rows_all)
  next
    case False
    with run written nonempty show ?thesis
      by (simp add: uncaught_def)
  qed
qed

lemma main_no_results_array:
  assumes "\<And>d rs. inp = Document (JObj d) \<Longrightarrow> map_of d ''results'' \<noteq> Some (JArr rs)"
  shows "exit_status (main inp) = 1 \<and> output_file (main inp) = None
         \<and> stderr (main inp) \<noteq> [] \<and> is_error_msg (last (stderr (main inp)))"
proof (cases inp)
  case FileMissing
  then show ?thesis by (simp add: main_def)
next
  case InvalidJSON
  then show ?thesis by (simp add: main_def)
next
  case (LoadRaises e)
  then show ?thesis by (simp add: main_def uncaught_def)
next
  case (Document data)
  show ?thesis
  proof (cases data)
    case (JObj d)
    show ?thesis
    proof (cases "map_of d ''results''")
      case None
      then show ?thesis
        by (simp add: Document JObj main_def dict_contains_def)
    next
      case (Some results)
      have not_arr: "\<And>rs. results \<noteq> JArr rs"
        using assms [of d] Document JObj Some by auto
      have strs: "extracted_rows (map (\<lambda>kv. JStr (fst kv)) m) = []" for m :: pydict
        by (rule extracted_rows_not_dicts) auto
      have chars: "extracted_rows (map JStr ps) = []" for ps
        by (rule extracted_rows_not_dicts) auto
      show ?thesis
      proof (cases results)
        case (JArr rs)
        with not_arr show ?thesis by blast
      qed (simp_all add: Some Document JObj main_def dict_contains_def dict_getitem_def
          uncaught_def extract_loop_eq strs chars)
    qed
  qed (simp_all add: Document main_def uncaught_def Let_def split: bool.splits)
qed

lemma skip_warnings_Cons:
  "skip_warnings n (r # rs) =
     (case extract_fields r of Inl e \<Rightarrow> [WarnRecord n e] | Inr row \<Rightarrow> []) @ skip_warnings (Suc n) rs"
  by (simp add: skip_warnings_def)

lemma skip_warnings_set:
  "WarnRecord i e \<in> set (skip_warnings n rs) \<longleftrightarrow>
     n \<le> i \<and> i < n + length rs \<and> extract_fields (rs ! (i - n)) = Inl e"
proof (induction rs arbitrary: n)
  case Nil
  show ?case by (simp add: skip_warnings_def)
next
  case (Cons r rs)
  note IH = Cons.IH [of "Suc n"]
  show ?case
  proof (cases "i = n")
    case True
    with IH have "WarnRecord i e \<notin> set (skip_warnings (Suc n) rs)" by simp
    with True show ?thesis
      by (auto simp: skip_warnings_Cons split: sum.splits)
  next
    case False
    have "(rs ! (i - Suc n)) = ((r # rs) ! (i - n))" if "n \<le> i"
    proof -
      from False that have "i - n = Suc (i - Suc n)" by arith
      then show ?thesis by simp
    qed
    with False IH show ?thesis
      by (auto simp: skip_warnings_Cons split: sum.splits)
  qed
qed


lemma rows_and_warnings_count:
  "length (extracted_rows rs) + length (skip_warnings n rs) = length rs"
proof (induction rs arbitrary: n)
  case Nil
  show ?case by (simp add: extracted_rows_def skip_warnings_def)
next
  case (Cons r rs)
  have "extracted_rows (r # rs) =
          (case extract_fields r of Inl e \<Rightarrow> [] | Inr row \<Rightarrow> [row]) @ extracted_rows rs"
    by (simp add: extracted_rows_def)
  with Cons.IH [of "Suc n"] show ?case
    by (simp add: skip_warnings_Cons split: sum.splits)
qed

lemma extracted_rows_empty_iff:
  "extracted_rows rs = [] \<longleftrightarrow> (\<forall>r \<in> set rs. \<forall>row. extract_fields r \<noteq> Inr row)"
  by (induction rs) (auto simp: extracted_rows_def split: sum.splits)

lemma extract_fields_empty_record:
  "extract_fields (JObj []) = Inr (first_columns [] @ [(''powerCardsOwned'', JStr '''')])"
  by (simp add: extract_fields_JObj dict_get_def)

lemma empty_record_encodable:
  "encodable_row (first_columns [] @ [(''powerCardsOwned'', JStr '''')])"
  by (simp add: encodable_row_def first_columns_def dict_get_def flattened_def cell_text_def
      py_str_def dict_contains_def)

lemma extract_fields_surrogate_record:
  "extract_fields (JObj [(''objectId'', JStr [CHR 0xED, CHR 0xA0, CHR 0x80])]) =
     Inr (first_columns [(''objectId'', JStr [CHR 0xED, CHR 0xA0, CHR 0x80])]
          @ [(''powerCardsOwned'', JStr '''')])"
  by (simp add: extract_fields_JObj dict_get_def)

lemma surrogate_record_not_encodable:
  "\<not> encodable_row
       (first_columns [(''objectId'', JStr [CHR 0xED, CHR 0xA0, CHR 0x80])]
        @ [(''powerCardsOwned'', JStr '''')])"
  by (simp add: encodable_row_def first_columns_def dict_get_def cell_text_def py_str_def)

text \<open>
  C1, as the claim has it, fails. The document
  \<open>{"results": [{"objectId": "\ud800"}, null]}\<close> has a record on which extraction
  succeeds. The run warns about record 2, opens the output file and writes the
  header; then the codec of the file refuses the lone surrogate in the first row, and
  the run ends with status 1 and no data row in the file.
\<close>

theorem main_surrogate_cell_no_row:
  "length (extracted_rows [JObj [(''objectId'', JStr [CHR 0xED, CHR 0xA0, CHR 0x80])], JNull]) = 1
   \<and> exit_status
        (main (Document (JObj [(''results'',
           JArr [JObj [(''objectId'', JStr [CHR 0xED, CHR 0xA0, CHR 0x80])], JNull])]))) = 1
   \<and> stderr
        (main (Document (JObj [(''results'',
           JArr [JObj [(''objectId'', JStr [CHR 0xED, CHR 0xA0, CHR 0x80])], JNull])]))) =
       [WarnRecord 2 (AttributeError ''NoneType'' ''get''), Traceback UnicodeEncodeError]
   \<and> output_file
        (main (Document (JObj [(''results'',
           JArr [JObj [(''objectId'', JStr [CHR 0xED, CHR 0xA0, CHR 0x80])], JNull])]))) =
       Some \<lparr>header = fieldnames_schema, data_rows = []\<rparr>"
proof -
  let ?r = "JObj [(''objectId'', JStr [CHR 0xED, CHR 0xA0, CHR 0x80])]"
  let ?row = "first_columns [(''objectId'', JStr [CHR 0xED, CHR 0xA0, CHR 0x80])]
              @ [(''powerCardsOwned'', JStr '''')]"
  have rows: "extracted_rows [?r, JNull] = [?row]"
    by (simp add: extracted_rows_def extract_fields_surrogate_record extract_fields_not_dict)
  have warns: "skip_warnings 1 [?r, JNull] = [WarnRecord 2 (AttributeError ''NoneType'' ''get'')]"
    by (simp add: skip_warnings_Cons skip_warnings_def extract_fields_surrogate_record
        extract_fields_not_dict)
  have "main (Document (JObj [(''results'', JArr [?r, JNull])])) =
      \<lparr>exit_status = 1, stdout = [Reading, Found 2, Writing],
       stderr = skip_warnings 1 [?r, JNull] @ [Traceback UnicodeEncodeError],
       output_file = Some \<lparr>header = fieldnames_schema, data_rows = []\<rparr>\<rparr>"
    using main_results_array [of "[(''results'', JArr [?r, JNull])]" "[?r, JNull]"]
    by (simp add: rows surrogate_record_not_encodable written_rows_def)
  with rows warns show ?thesis by simp
qed

text \<open>
  C1, amended. When the \<open>results\<close> array of the document has a record on which
  extraction succeeds, a record on which extraction raises is skipped: standard error
  holds the warning of every such record, with the position of the record counted
  from 1, and every record gives either a row or a warning. The output file is
  opened and gets the schema as header and the rows of the records on which
  extraction succeeds, in their order, up to the first row with a cell that UTF-8
  cannot encode. With no such cell the file holds one data row for every extracted
  record and the run ends with status 0. With such a cell the run ends with an
  uncaught \<open>UnicodeEncodeError\<close> and status 1.
\<close>

theorem main_skips_failing_records:
  assumes "map_of d ''results'' = Some (JArr rs)"
    and "\<exists>r \<in> set rs. \<exists>row. extract_fields r = Inr row"
  shows "(WarnRecord i e \<in> set (skip_warnings 1 rs) \<longleftrightarrow>
            1 \<le> i \<and> i \<le> length rs \<and> extract_fields (rs ! (i - 1)) = Inl e)
    \<and> length (extracted_rows rs) + length (skip_warnings 1 rs) = length rs
    \<and> output_file (main (Document (JObj d))) =
          Some \<lparr>header = fieldnames_schema, data_rows = written_rows (extracted_rows rs)\<rparr>
    \<and> (if list_all encodable_row (extracted_rows rs)
        then exit_status (main (Document (JObj d))) = 0
             \<and> stderr (main (Document (JObj d))) = skip_warnings 1 rs
             \<and> written_rows (extracted_rows rs) = map (map snd) (extracted_rows rs)
        else exit_status (main (Document (JObj d))) = 1
             \<and> stderr (main (Document (JObj d))) =
                 skip_warnings 1 rs @ [Traceback UnicodeEncodeError])"
proof -
  from assms(2) have nonempty: "extracted_rows rs \<noteq> []"
    by (simp add: extracted_rows_empty_iff)
  have warn: "WarnRecord i e \<in> set (skip_warnings 1 rs) \<longleftrightarrow>
          1 \<le> i \<and> i \<le> length rs \<and> extract_fields (rs ! (i - 1)) = Inl e"
    by (auto simp: skip_warnings_set)
  show ?thesis
  proof (cases "list_all encodable_row (extracted_rows rs)")
    case True
    with main_results_array [OF assms(1)] nonempty warn show ?thesis
      by (simp add: rows_and_warnings_count written_rows_all)
  next
    case False
    with main_results_array [OF assms(1)] nonempty warn show ?thesis
      by (simp add: rows_and_warnings_count)
  qed
qed

text \<open>
  Two records that are empty dicts and a third that is \<open>null\<close>: two data rows, one
  warning for record 3, status 0.
\<close>

theorem main_skips_failing_records_witness:
  "exit_status (main (Document (JObj [(''results'', JArr [JObj [], JObj [], JNull])]))) = 0
   \<and> stderr (main (Document (JObj [(''results'', JArr [JObj [], JObj [], JNull])]))) =
       [WarnRecord 3 (AttributeError ''NoneType'' ''get'')]
   \<and> (\<exists>f. output_file (main (Document (JObj [(''results'', JArr [JObj [], JObj [], JNull])]))) =
            Some f \<and> length (data_rows f) = 2)"
  using main_skips_failing_records
    [of "[(''results'', JArr [JObj [], JObj [], JNull])]" "[JObj [], JObj [], JNull]"]
  by (simp add: skip_warnings_Cons skip_warnings_def extracted_rows_def
      extract_fields_empty_record extract_fields_not_dict empty_record_encodable)




section \<open>The columns of a row\<close>

lemma map_of_snoc_other:
  "k' \<noteq> k \<Longrightarrow> map_of (xs @ [(k, v)]) k' = map_of xs k'"
  by (induction xs) auto


text \<open>
  C7, as the claim has it, fails. Take the record in which every column of the
  schema holds the nested object \<open>{"iso": "X"}\<close>. The only cell of its row that is the
  string \<open>X\<close> is \<open>endDate\<close>: \<open>createdAt\<close> and \<open>updatedAt\<close> (and the scalar
  columns) hold the nested object itself, and the flattened columns hold \<open>iso: X\<close>.
  So one column is treated by the rule, not two.
\<close>

theorem extract_fields_one_iso_column:
  "(case extract_fields
           (JObj (map (\<lambda>k. (k, JObj [(''iso'', JStr ''X'')])) fieldnames_schema)) of
      Inl e \<Rightarrow> False
    | Inr row \<Rightarrow>
        filter (\<lambda>k. map_of row k = Some (JStr ''X'')) fieldnames_schema = [''endDate''])"
  by (simp add: fieldnames_schema_def extract_fields_JObj first_columns_def dict_get_def
      flattened_def dict_contains_def py_str_def Let_def)

text \<open>
  C7, amended. One date-valued field is looked up as a nested object: the cell of
  \<open>endDate\<close> is the value of the \<open>iso\<close> field when the record's \<open>endDate\<close> is an
  object that has one, and the empty string otherwise. The other two date-valued
  fields, \<open>createdAt\<close> and \<open>updatedAt\<close>, are copied as they are, with the empty string
  when the record lacks them.
\<close>

theorem extract_fields_dates:
  assumes "extract_fields (JObj g) = Inr row"
  shows "map_of row ''endDate'' =
           Some (case map_of g ''endDate'' of
                   Some (JObj ed) \<Rightarrow> (case map_of ed ''iso'' of Some v \<Rightarrow> v | None \<Rightarrow> JStr '''')
                 | _ \<Rightarrow> JStr '''')
         \<and> map_of row ''createdAt'' =
             Some (case map_of g ''createdAt'' of Some v \<Rightarrow> v | None \<Rightarrow> JStr '''')
         \<and> map_of row ''updatedAt'' =
             Some (case map_of g ''updatedAt'' of Some v \<Rightarrow> v | None \<Rightarrow> JStr '''')"
proof -
  from assms obtain g' cell where "JObj g = JObj g'"
    and "row = first_columns g' @ [(''powerCardsOwned'', cell)]"
    by (rule extract_fields_cases)
  then have row: "row = first_columns g @ [(''powerCardsOwned'', cell)]" by simp
  have "map_of row ''endDate'' = map_of (first_columns g) ''endDate''"
    "map_of row ''createdAt'' = map_of (first_columns g) ''createdAt''"
    "map_of row ''updatedAt'' = map_of (first_columns g) ''updatedAt''"
    unfolding row by (rule map_of_snoc_other, simp)+
  then show ?thesis
    by (simp add: first_columns_dates dict_get_def split: option.splits json.splits)
qed

theorem extract_fields_dates_witness:
  "\<exists>row. extract_fields
            (JObj [(''endDate'', JObj [(''__type'', JStr ''Date''), (''iso'', JStr ''2024-01-01T00:00:00Z'')]),
                   (''createdAt'', JObj [(''iso'', JStr ''2024-01-02T00:00:00Z'')])]) = Inr row
         \<and> map_of row ''endDate'' = Some (JStr ''2024-01-01T00:00:00Z'')
         \<and> map_of row ''createdAt'' = Some (JObj [(''iso'', JStr ''2024-01-02T00:00:00Z'')])
         \<and> map_of row ''updatedAt'' = Some (JStr '''')"
proof -
  let ?g = "[(''endDate'', JObj [(''__type'', JStr ''Date''), (''iso'', JStr ''2024-01-01T00:00:00Z'')]),
             (''createdAt'', JObj [(''iso'', JStr ''2024-01-02T00:00:00Z'')])]"
  have "extract_fields (JObj ?g) = Inr (first_columns ?g @ [(''powerCardsOwned'', JStr '''')])"
    by (simp add: extract_fields_JObj dict_get_def)
  from extract_fields_dates [OF this] this show ?thesis by simp
qed

text \<open>
  C8. When \<open>powerCardsOwned\<close> is a dict \<open>m\<close> (the empty one when the record lacks
  the field), extraction succeeds and the cell is made of the entries of \<open>m\<close> in key
  order, joined with a semicolon and a space; an entry is the category, a colon, and
  the items of its list joined with a comma and a space. With no entry the cell is
  the empty string.
\<close>

theorem extract_fields_power_cards:
  assumes "dict_get g ''powerCardsOwned'' (JObj []) = JObj m"
  shows "\<exists>row. extract_fields (JObj g) = Inr row
           \<and> map_of row ''powerCardsOwned'' = Some (JStr (join ''; '' (map ownership_entry m)))"
proof (cases "m = []")
  case True
  with assms have "extract_fields (JObj g) = Inr (first_columns g @ [(''powerCardsOwned'', JStr '''')])"
    by (simp add: extract_fields_JObj)
  with True show ?thesis
    by (simp add: map_add_def first_columns_no_power_cards)
next
  case False
  with assms have "extract_fields (JObj g) =
      Inr (first_columns g @ [(''powerCardsOwned'', JStr (join ''; '' (cards_loop m [])))])"
    by (simp add: extract_fields_JObj)
  then show ?thesis
    by (simp add: map_add_def first_columns_no_power_cards cards_loop_eq)
qed

theorem extract_fields_power_cards_witness:
  "(\<exists>row. extract_fields
             (JObj [(''powerCardsOwned'',
                     JObj [(''SpiritA'', JArr [JStr ''Card1'', JStr ''Card2'']),
                           (''SpiritB'', JArr [JStr ''Card3''])])]) = Inr row
          \<and> map_of row ''powerCardsOwned'' = Some (JStr ''SpiritA: Card1, Card2; SpiritB: Card3''))
   \<and> (\<exists>row. extract_fields (JObj [(''powerCardsOwned'', JObj [])]) = Inr row
          \<and> map_of row ''powerCardsOwned'' = Some (JStr ''''))
   \<and> (\<exists>row. extract_fields (JObj []) = Inr row
          \<and> map_of row ''powerCardsOwned'' = Some (JStr ''''))"
  using extract_fields_power_cards
      [of "[(''powerCardsOwned'',
             JObj [(''SpiritA'', JArr [JStr ''Card1'', JStr ''Card2'']),
                   (''SpiritB'', JArr [JStr ''Card3''])])]"
          "[(''SpiritA'', JArr [JStr ''Card1'', JStr ''Card2'']),
            (''SpiritB'', JArr [JStr ''Card3''])]"]
    extract_fields_power_cards [of "[(''powerCardsOwned'', JObj [])]" "[]"]
    extract_fields_power_cards [of "[]" "[]"]
  by (simp add: dict_get_def py_str_def)

text \<open>
  C9. The keys of every row that extraction returns are the schema, in the order of
  the schema, whatever the record. So when \<open>main\<close> writes the output file, its
  header is the schema, its data rows are the cells of the extracted rows (all of
  them when the run ends with status 0, and those before the first row that UTF-8
  cannot encode otherwise), and every extracted row has exactly the keys of the
  header, in the same order.
\<close>

theorem rows_share_header:
  "(extract_fields r = Inr row \<longrightarrow> map fst row = fieldnames_schema)
   \<and> (output_file (main inp) = Some f \<longrightarrow>
        header f = fieldnames_schema
        \<and> data_rows f = written_rows (extracted_rows (records_of inp))
        \<and> (exit_status (main inp) = 0 \<longrightarrow>
             data_rows f = map (map snd) (extracted_rows (records_of inp)))
        \<and> (\<forall>rowdict \<in> set (extracted_rows (records_of inp)). map fst rowdict = header f))"
proof (rule conjI; rule impI)
  assume "extract_fields r = Inr row"
  then show "map fst row = fieldnames_schema" by (rule extract_fields_keys)
next
  assume out: "output_file (main inp) = Some f"
  have "\<exists>d rs. inp = Document (JObj d) \<and> map_of d ''results'' = Some (JArr rs)"
  proof (rule ccontr)
    assume "\<not> ?thesis"
    then have "\<And>d rs. inp = Document (JObj d) \<Longrightarrow> map_of d ''results'' \<noteq> Some (JArr rs)"
      by blast
    from main_no_results_array [OF this] out show False by simp
  qed
  then obtain d rs where inp: "inp = Document (JObj d)"
    and rs: "map_of d ''results'' = Some (JArr rs)" by blast
  then have recs: "records_of inp = rs" by (simp add: records_of_def)
  from out main_results_array [OF rs]
  have f: "f = \<lparr>header = fieldnames_schema, data_rows = written_rows (extracted_rows rs)\<rparr>"
    by (auto simp: inp written_rows_all split: if_splits)
  from main_results_array [OF rs]
  have "written_rows (extracted_rows rs) = map (map snd) (extracted_rows rs)"
    if "exit_status (main inp) = 0"
    using that by (auto simp: inp written_rows_all split: if_splits)
  with f show "header f = fieldnames_schema
        \<and> data_rows f = written_rows (extracted_rows (records_of inp))
        \<and> (exit_status (main inp) = 0 \<longrightarrow>
             data_rows f = map (map snd) (extracted_rows (records_of inp)))
        \<and> (\<forall>rowdict \<in> set (extracted_rows (records_of inp)). map fst rowdict = header f)"
    by (simp add: recs extracted_rows_keys)
qed

theorem rows_share_header_witness:
  "(\<exists>row. extract_fields (JObj [(''score'', JInt 7), (''objectId'', JStr ''a'')]) = Inr row
          \<and> map fst row = fieldnames_schema)
   \<and> (\<exists>f. output_file
             (main (Document (JObj [(''results'',
                JArr [JObj [(''score'', JInt 7), (''objectId'', JStr ''a'')], JObj []])]))) = Some f
          \<and> header f = fieldnames_schema \<and> length (data_rows f) = 2)"
proof -
  let ?r = "JObj [(''score'', JInt 7), (''objectId'', JStr ''a'')]"
  let ?d = "[(''results'', JArr [?r, JObj []])]"
  have a: "extract_fields ?r =
      Inr (first_columns [(''score'', JInt 7), (''objectId'', JStr ''a'')]
           @ [(''powerCardsOwned'', JStr '''')])"
    by (simp add: extract_fields_JObj dict_get_def)
  have rows: "extracted_rows [?r, JObj []] \<noteq> []"
    by (simp add: extracted_rows_def a)
  have enc: "list_all encodable_row (extracted_rows [?r, JObj []])"
    by (simp add: extracted_rows_def a extract_fields_empty_record empty_record_encodable
        encodable_row_def first_columns_def dict_get_def flattened_def cell_text_def
        py_str_def str_int_def str_nat.simps digit_char_def dict_contains_def)
  have b: "output_file (main (Document (JObj ?d))) =
      Some \<lparr>header = fieldnames_schema,
            data_rows = map (map snd) (extracted_rows [?r, JObj []])\<rparr>"
    using main_results_array [of ?d "[?r, JObj []]"] rows enc by simp
  have len: "length (extracted_rows [?r, JObj []]) = 2"
    by (simp add: extracted_rows_def a extract_fields_empty_record)
  let ?row = "first_columns [(''score'', JInt 7), (''objectId'', JStr ''a'')]
               @ [(''powerCardsOwned'', JStr '''')]"
  let ?f = "\<lparr>header = fieldnames_schema,
             data_rows = map (map snd) (extracted_rows [?r, JObj []])\<rparr>"
  note inst = rows_share_header [of ?r ?row "Document (JObj ?d)" ?f]
  from inst a have "map fst ?row = fieldnames_schema" by blast
  with a have 1: "\<exists>row. extract_fields ?r = Inr row \<and> map fst row = fieldnames_schema"
    by blast
  from inst b have "header ?f = fieldnames_schema" by blast
  moreover from len have "length (data_rows ?f) = 2" by simp
  ultimately have 2: "\<exists>f. output_file (main (Document (JObj ?d))) = Some f
      \<and> header f = fieldnames_schema \<and> length (data_rows f) = 2"
    using b by blast
  from 1 2 show ?thesis by blast
qed

end
